theory Spec2Isabelle
  imports Complex_Main
begin

section \<open>The adaptive engine\<close>

text \<open>
  The engine of \<^verbatim>\<open>adaptive_engine.py\<close> is a class with four attributes; it is
  modelled as a record, and every method takes the record and returns the updated one
  beside its result. Python's \<^verbatim>\<open>float\<close> is idealised as \<^typ>\<open>real\<close>: the
  comparisons and the control flow are those of the source, the arithmetic is exact
  (no rounding, no infinities, no NaN). The difficulty index is a Python \<^verbatim>\<open>int\<close>,
  so it is an \<^typ>\<open>int\<close> here, and indexing the list of levels has Python's
  behaviour: a negative index counts from the end, an index out of range raises.
\<close>

datatype py_error = IndexError | ValueError string

record engine =
  p_score :: real
  difficulty_levels :: "string list"
  current_difficulty_index :: int
  decay_factor :: real

text \<open>The dictionary returned by \<^verbatim>\<open>update_performance\<close>, key by key.\<close>

record update_info =
  old_score :: real
  new_score :: real
  score_change :: real
  old_difficulty :: string
  new_difficulty :: string
  transition_occurred :: bool
  rationale :: string

text \<open>\<^verbatim>\<open>xs[i]\<close> on a Python list.\<close>

definition list_getitem :: "'a list \<Rightarrow> int \<Rightarrow> py_error + 'a" where
  "list_getitem xs i =
     (if 0 \<le> i \<and> i < int (length xs) then Inr (xs ! nat i)
      else if i < 0 \<and> - int (length xs) \<le> i then Inr (xs ! nat (int (length xs) + i))
      else Inl IndexError)"

text \<open>\<^verbatim>\<open>AdaptiveEngine.__init__\<close>\<close>

definition AdaptiveEngine_init :: engine where
  "AdaptiveEngine_init =
     \<lparr>p_score = 0, difficulty_levels = [''Easy'', ''Medium'', ''Hard''],
      current_difficulty_index = 0, decay_factor = 9 / 10\<rparr>"

text \<open>The property \<^verbatim>\<open>current_difficulty\<close>.\<close>

definition current_difficulty :: "engine \<Rightarrow> py_error + string" where
  "current_difficulty e = list_getitem (difficulty_levels e) (current_difficulty_index e)"

text \<open>
  Lines 49 to 61 of \<^verbatim>\<open>update_performance\<close>: the reward or penalty is added to the
  score and the rationale is chosen. The result is the engine before the decay.
\<close>

definition score_update :: "engine \<Rightarrow> bool \<Rightarrow> real \<Rightarrow> engine \<times> string" where
  "score_update e is_correct response_time =
     (if is_correct then
        (if response_time \<le> 5 then
           (e\<lparr>p_score := p_score e + 2\<rparr>,
            ''High Fluency - Correct answer with quick response'')
         else
           (e\<lparr>p_score := p_score e + 1\<rparr>,
            ''Accuracy - Correct but slow response''))
      else
        (e\<lparr>p_score := p_score e - 3\<rparr>,
         ''Inaccurate - Incorrect answer indicates knowledge gap''))"

text \<open>\<^verbatim>\<open>_check_difficulty_transition\<close>: the flag it returns and the engine it leaves.\<close>

definition check_difficulty_transition :: "engine \<Rightarrow> bool \<times> engine" where
  "check_difficulty_transition e =
     (if 5 \<le> p_score e \<and> current_difficulty_index e < int (length (difficulty_levels e)) - 1
      then (True, e\<lparr>current_difficulty_index := current_difficulty_index e + 1, p_score := 0\<rparr>)
      else if p_score e \<le> - 3 \<and> 0 < current_difficulty_index e
      then (True, e\<lparr>current_difficulty_index := current_difficulty_index e - 1, p_score := 0\<rparr>)
      else (False, e))"

text \<open>Line 64, \<^verbatim>\<open>self.p_score *= self.decay_factor\<close>.\<close>

definition apply_decay :: "engine \<Rightarrow> engine" where
  "apply_decay e = e\<lparr>p_score := p_score e * decay_factor e\<rparr>"

text \<open>
  \<^verbatim>\<open>update_performance\<close>. Reading \<^verbatim>\<open>self.current_difficulty\<close> can raise, first
  before anything is changed and again when the dictionary is built.
\<close>

definition update_performance ::
  "engine \<Rightarrow> bool \<Rightarrow> real \<Rightarrow> py_error + (update_info \<times> engine)" where
  "update_performance e is_correct response_time =
     (case current_difficulty e of
        Inl err \<Rightarrow> Inl err
      | Inr old_d \<Rightarrow>
          (case score_update e is_correct response_time of
             (e1, why) \<Rightarrow>
               (case check_difficulty_transition (apply_decay e1) of
                  (moved, e3) \<Rightarrow>
                    (case current_difficulty e3 of
                       Inl err \<Rightarrow> Inl err
                     | Inr new_d \<Rightarrow>
                         Inr (\<lparr>old_score = p_score e,
                               new_score = p_score e3,
                               score_change = p_score e3 - p_score e * decay_factor e3,
                               old_difficulty = old_d,
                               new_difficulty = new_d,
                               transition_occurred = moved,
                               rationale = why\<rparr>, e3)))))"

text \<open>
  What \<^verbatim>\<open>__init__\<close> establishes and every method keeps: the three levels, the
  decay factor, and an index that points into the levels.
\<close>

definition engine_inv :: "engine \<Rightarrow> bool" where
  "engine_inv e =
     (difficulty_levels e = [''Easy'', ''Medium'', ''Hard''] \<and> decay_factor e = 9 / 10 \<and>
      0 \<le> current_difficulty_index e \<and> current_difficulty_index e \<le> 2)"

text \<open>
  The engine as the transition check finds it (line 67): after the reward or penalty of
  lines 49 to 61 and the decay of line 64.
\<close>

definition before_check :: "engine \<Rightarrow> bool \<Rightarrow> real \<Rightarrow> engine" where
  "before_check e is_correct response_time =
     apply_decay (fst (score_update e is_correct response_time))"

text \<open>
  A session: the calls of \<^verbatim>\<open>update_performance\<close> that the loop of
  \<^verbatim>\<open>run_math_adventures_session\<close> makes on one engine, one outcome (correctness,
  response time) a turn. An exception ends the session.
\<close>

fun run :: "engine \<Rightarrow> (bool \<times> real) list \<Rightarrow> py_error + engine" where
  "run e [] = Inr e"
| "run e ((is_correct, response_time) # rest) =
     (case update_performance e is_correct response_time of
        Inl err \<Rightarrow> Inl err
      | Inr (info, e') \<Rightarrow> run e' rest)"

text \<open>
  The delta of the specification (section 4.1, step 2), in its words; the source has no
  such variable, it adds to the score in place (\<open>score_update\<close>).
\<close>

definition spec_delta :: "bool \<Rightarrow> real \<Rightarrow> real" where
  "spec_delta is_correct response_time =
     (if is_correct \<and> response_time \<le> 5 then 2
      else if is_correct \<and> 5 < response_time then 1
      else - 3)"

subsection \<open>The status query\<close>

text \<open>
  Python's \<^verbatim>\<open>round(x, ndigits)\<close> on a float: the nearest multiple of
  \<open>10 ^ - ndigits\<close>, a tie going to the even one. The source calls it with 2 digits.
\<close>

definition round_half_even :: "real \<Rightarrow> int" where
  "round_half_even y =
     (if y - of_int \<lfloor>y\<rfloor> < 1 / 2 then \<lfloor>y\<rfloor>
      else if 1 / 2 < y - of_int \<lfloor>y\<rfloor> then \<lfloor>y\<rfloor> + 1
      else if even \<lfloor>y\<rfloor> then \<lfloor>y\<rfloor>
      else \<lfloor>y\<rfloor> + 1)"

definition py_round :: "real \<Rightarrow> nat \<Rightarrow> real" where
  "py_round x ndigits = of_int (round_half_even (x * 10 ^ ndigits)) / 10 ^ ndigits"

text \<open>
  The dictionary returned by \<^verbatim>\<open>get_status\<close>. The keys \<^verbatim>\<open>p_score\<close>,
  \<^verbatim>\<open>difficulty\<close> and \<^verbatim>\<open>difficulty_index\<close> carry the prefix \<open>status_\<close>
  here, apart from the fields of the engine and of a puzzle.
\<close>

record status =
  status_p_score :: real
  status_difficulty :: string
  status_difficulty_index :: int
  increase_threshold :: real
  decrease_threshold :: real

text \<open>
  \<^verbatim>\<open>get_status\<close> assigns to no attribute: the engine it leaves is the one it was
  given.
\<close>

definition get_status :: "engine \<Rightarrow> py_error + (status \<times> engine)" where
  "get_status e =
     (case current_difficulty e of
        Inl err \<Rightarrow> Inl err
      | Inr d \<Rightarrow>
          Inr (\<lparr>status_p_score = py_round (p_score e) 2,
                status_difficulty = d,
                status_difficulty_index = current_difficulty_index e,
                increase_threshold = 5,
                decrease_threshold = - 3\<rparr>, e))"

section \<open>The puzzle generator\<close>

text \<open>
  \<^verbatim>\<open>puzzle_generator.py\<close>. The generator draws from Python's \<^verbatim>\<open>random\<close> module. Its state is modelled as
  the sequence of raw draws still to come; a call takes the first and leaves the rest.
  \<^verbatim>\<open>random.choice\<close> raises on an empty sequence and \<^verbatim>\<open>random.randint\<close> on an
  empty range.
\<close>

type_synonym rng = "nat \<Rightarrow> nat"

type_synonym 'a rand = "rng \<Rightarrow> py_error + ('a \<times> rng)"

definition random_choice :: "'a list \<Rightarrow> 'a rand" where
  "random_choice xs r =
     (if xs = [] then Inl IndexError
      else Inr (xs ! (r 0 mod length xs), \<lambda>i. r (Suc i)))"

definition random_randint :: "int \<Rightarrow> int \<Rightarrow> int rand" where
  "random_randint a b r =
     (if b < a then Inl (ValueError ''empty range for randrange()'')
      else Inr (a + int (r 0 mod nat (b - a + 1)), \<lambda>i. r (Suc i)))"

text \<open>One statement after the other: an exception skips the rest.\<close>

definition and_then :: "'a rand \<Rightarrow> ('a \<Rightarrow> 'b rand) \<Rightarrow> 'b rand" where
  "and_then m f r = (case m r of Inl err \<Rightarrow> Inl err | Inr (x, r') \<Rightarrow> f x r')"

definition return_value :: "'a \<Rightarrow> 'a rand" where
  "return_value x r = Inr (x, r)"

text \<open>\<^verbatim>\<open>str\<close> of an integer, as an f-string formats it.\<close>

definition digit_char :: "nat \<Rightarrow> char" where
  "digit_char n = ''0123456789'' ! n"

fun str_nat :: "nat \<Rightarrow> string" where
  "str_nat n =
     (if n < 10 then [digit_char n]
      else str_nat (n div 10) @ [digit_char (n mod 10)])"

definition str_int :: "int \<Rightarrow> string" where
  "str_int i = (if i < 0 then CHR ''-'' # str_nat (nat (- i)) else str_nat (nat i))"

text \<open>
  The multiplication and division signs of the questions are not ASCII; they are kept
  as their UTF-8 bytes.
\<close>

definition times_sign :: string where
  "times_sign = [CHR 0xC3, CHR 0x97]"

definition division_sign :: string where
  "division_sign = [CHR 0xC3, CHR 0xB7]"

record puzzle =
  question :: string
  answer :: int
  difficulty :: string

definition generate_easy_puzzle :: "puzzle rand" where
  "generate_easy_puzzle =
     and_then (random_choice [''+'', ''-'']) (\<lambda>operation.
       if operation = ''+'' then
         and_then (random_randint 1 9) (\<lambda>a.
         and_then (random_randint 1 9) (\<lambda>b.
         return_value \<lparr>question = str_int a @ '' + '' @ str_int b,
                       answer = a + b, difficulty = ''Easy''\<rparr>))
       else
         and_then (random_randint 5 9) (\<lambda>a.
         and_then (random_randint 1 a) (\<lambda>b.
         return_value \<lparr>question = str_int a @ '' - '' @ str_int b,
                       answer = a - b, difficulty = ''Easy''\<rparr>)))"

definition generate_medium_puzzle :: "puzzle rand" where
  "generate_medium_puzzle =
     and_then (random_choice [''+'', ''-'', ''*'']) (\<lambda>operation.
       if operation = ''+'' then
         and_then (random_randint 10 50) (\<lambda>a.
         and_then (random_randint 10 50) (\<lambda>b.
         return_value \<lparr>question = str_int a @ '' + '' @ str_int b,
                       answer = a + b, difficulty = ''Medium''\<rparr>))
       else if operation = ''-'' then
         and_then (random_randint 20 99) (\<lambda>a.
         and_then (random_randint 10 a) (\<lambda>b.
         return_value \<lparr>question = str_int a @ '' - '' @ str_int b,
                       answer = a - b, difficulty = ''Medium''\<rparr>))
       else
         and_then (random_randint 2 9) (\<lambda>a.
         and_then (random_randint 2 12) (\<lambda>b.
         return_value \<lparr>question = str_int a @ '' '' @ times_sign @ '' '' @ str_int b,
                       answer = a * b, difficulty = ''Medium''\<rparr>)))"

definition generate_hard_puzzle :: "puzzle rand" where
  "generate_hard_puzzle =
     and_then (random_choice [''multi_step'', ''large_numbers'', ''division''])
       (\<lambda>puzzle_type.
       if puzzle_type = ''multi_step'' then
         and_then (random_randint 5 15) (\<lambda>a.
         and_then (random_randint 5 15) (\<lambda>b.
         and_then (random_randint 2 8) (\<lambda>c.
         return_value
           \<lparr>question = ''('' @ str_int a @ '' + '' @ str_int b @ '') '' @ times_sign @
                         '' '' @ str_int c,
            answer = (a + b) * c, difficulty = ''Hard''\<rparr>)))
       else if puzzle_type = ''large_numbers'' then
         and_then (random_choice [''+'', ''-'']) (\<lambda>operation.
           if operation = ''+'' then
             and_then (random_randint 100 500) (\<lambda>a.
             and_then (random_randint 100 500) (\<lambda>b.
             return_value \<lparr>question = str_int a @ '' + '' @ str_int b,
                           answer = a + b, difficulty = ''Hard''\<rparr>))
           else
             and_then (random_randint 200 999) (\<lambda>a.
             and_then (random_randint 100 a) (\<lambda>b.
             return_value \<lparr>question = str_int a @ '' - '' @ str_int b,
                           answer = a - b, difficulty = ''Hard''\<rparr>)))
       else
         and_then (random_randint 5 20) (\<lambda>quotient.
         and_then (random_randint 3 12) (\<lambda>divisor.
         return_value
           \<lparr>question = str_int (quotient * divisor) @ '' '' @ division_sign @ '' '' @
                         str_int divisor,
            answer = quotient, difficulty = ''Hard''\<rparr>)))"

text \<open>The generator object: its one attribute is the dictionary of the three methods.\<close>

record puzzle_generator =
  operations :: "string \<rightharpoonup> puzzle rand"

definition PuzzleGenerator_init :: puzzle_generator where
  "PuzzleGenerator_init =
     \<lparr>operations = [''Easy'' \<mapsto> generate_easy_puzzle,
                     ''Medium'' \<mapsto> generate_medium_puzzle,
                     ''Hard'' \<mapsto> generate_hard_puzzle]\<rparr>"

definition generate_puzzle :: "puzzle_generator \<Rightarrow> string \<Rightarrow> puzzle rand" where
  "generate_puzzle g d r =
     (case operations g d of
        None \<Rightarrow> Inl (ValueError (''Unknown difficulty: '' @ d))
      | Some generate \<Rightarrow> generate r)"

section \<open>Basic facts about the engine\<close>

lemma inv_index_cases:
  "engine_inv e \<Longrightarrow>
   current_difficulty_index e = 0 \<or> current_difficulty_index e = 1 \<or>
   current_difficulty_index e = 2"
  unfolding engine_inv_def by arith

lemma init_inv: "engine_inv AdaptiveEngine_init"
  by (simp add: engine_inv_def AdaptiveEngine_init_def)

lemma score_update_inv: "engine_inv e \<Longrightarrow> engine_inv (fst (score_update e c t))"
  by (simp add: engine_inv_def score_update_def)

lemma apply_decay_inv: "engine_inv e \<Longrightarrow> engine_inv (apply_decay e)"
  by (simp add: engine_inv_def apply_decay_def)

lemma before_check_inv: "engine_inv e \<Longrightarrow> engine_inv (before_check e c t)"
  unfolding before_check_def by (intro apply_decay_inv score_update_inv)

lemma before_check_index:
  "current_difficulty_index (before_check e c t) = current_difficulty_index e"
  by (simp add: before_check_def apply_decay_def score_update_def)

lemma check_inv: "engine_inv e \<Longrightarrow> engine_inv (snd (check_difficulty_transition e))"
  by (auto simp: engine_inv_def check_difficulty_transition_def)

lemma current_difficulty_inv:
  "engine_inv e \<Longrightarrow>
   current_difficulty e =
     Inr ([''Easy'', ''Medium'', ''Hard''] ! nat (current_difficulty_index e))"
  by (simp add: engine_inv_def current_difficulty_def list_getitem_def)

text \<open>On an engine that satisfies the invariant no read of the level raises.\<close>

lemma update_performance_inv:
  assumes "engine_inv e"
  shows "update_performance e c t =
    Inr (\<lparr>old_score = p_score e,
          new_score = p_score (snd (check_difficulty_transition (before_check e c t))),
          score_change = p_score (snd (check_difficulty_transition (before_check e c t)))
              - p_score e * (9 / 10),
          old_difficulty = [''Easy'', ''Medium'', ''Hard''] ! nat (current_difficulty_index e),
          new_difficulty = [''Easy'', ''Medium'', ''Hard''] !
             nat (current_difficulty_index
                    (snd (check_difficulty_transition (before_check e c t)))),
          transition_occurred = fst (check_difficulty_transition (before_check e c t)),
          rationale = snd (score_update e c t)\<rparr>,
         snd (check_difficulty_transition (before_check e c t)))"
proof -
  let ?e3 = "snd (check_difficulty_transition (before_check e c t))"
  have inv3: "engine_inv ?e3"
    by (intro check_inv before_check_inv assms)
  then have d3: "decay_factor ?e3 = 9 / 10"
    by (simp add: engine_inv_def)
  obtain e1 why where su: "score_update e c t = (e1, why)"
    by (cases "score_update e c t")
  obtain moved e3 where ck: "check_difficulty_transition (apply_decay e1) = (moved, e3)"
    by (cases "check_difficulty_transition (apply_decay e1)")
  have e3: "?e3 = e3" and mv: "fst (check_difficulty_transition (before_check e c t)) = moved"
    by (simp_all add: before_check_def su ck)
  show ?thesis
    unfolding update_performance_def
    using current_difficulty_inv [OF assms] current_difficulty_inv [OF inv3] d3
    by (simp add: su ck e3 mv before_check_def)
qed

text \<open>The check on an engine that satisfies the invariant, by the position of the level.\<close>

lemma check_inv_cases:
  assumes "engine_inv e"
  shows "check_difficulty_transition e =
    (if 5 \<le> p_score e \<and> current_difficulty_index e \<noteq> 2
     then (True, e\<lparr>current_difficulty_index := current_difficulty_index e + 1, p_score := 0\<rparr>)
     else if p_score e \<le> - 3 \<and> current_difficulty_index e \<noteq> 0
     then (True, e\<lparr>current_difficulty_index := current_difficulty_index e - 1, p_score := 0\<rparr>)
     else (False, e))"
  using assms by (auto simp: engine_inv_def check_difficulty_transition_def)

lemma inv_decay: "engine_inv e \<Longrightarrow> decay_factor e = 9 / 10"
  unfolding engine_inv_def by blast

text \<open>The highest level is index 2 and the lowest is index 0.\<close>

lemma level_is_hard_iff:
  assumes "engine_inv e"
  shows "(current_difficulty e = Inr ''Hard'') = (current_difficulty_index e = 2)"
  using inv_index_cases [OF assms]
  by (elim disjE) (simp_all add: current_difficulty_inv [OF assms])

lemma level_is_easy_iff:
  assumes "engine_inv e"
  shows "(current_difficulty e = Inr ''Easy'') = (current_difficulty_index e = 0)"
  using inv_index_cases [OF assms]
  by (elim disjE) (simp_all add: current_difficulty_inv [OF assms])

text \<open>What lines 49 to 61 add to the score is the delta of the specification.\<close>

lemma score_update_delta:
  "p_score (fst (score_update e c t)) = p_score e + spec_delta c t"
  by (simp add: score_update_def spec_delta_def)

text \<open>The score the check sees is the old score plus the delta, decayed once.\<close>

lemma before_check_score:
  assumes "engine_inv e"
  shows "p_score (before_check e c t) = (p_score e + spec_delta c t) * (9 / 10)"
  by (simp add: before_check_def apply_decay_def score_update_def spec_delta_def
      inv_decay [OF assms])

lemmas eval_defs = before_check_def apply_decay_def score_update_def
  check_difficulty_transition_def AdaptiveEngine_init_def

lemma inv_levels:
  "engine_inv e \<Longrightarrow> difficulty_levels e = [''Easy'', ''Medium'', ''Hard'']"
  unfolding engine_inv_def by blast

lemma update_performance_returns:
  "engine_inv e \<Longrightarrow> \<exists>info e'. update_performance e c t = Inr (info, e')"
  by (simp add: update_performance_inv)

lemma update_performance_preserves_inv:
  assumes "engine_inv e" and "update_performance e c t = Inr (info, e')"
  shows "engine_inv e'"
proof -
  have "e' = snd (check_difficulty_transition (before_check e c t))"
    using assms(2) by (simp add: update_performance_inv [OF assms(1)])
  then show ?thesis
    by (simp add: check_inv before_check_inv assms(1))
qed

text \<open>A session on an engine that satisfies the invariant runs to its end.\<close>

lemma run_inv:
  "engine_inv e \<Longrightarrow> \<exists>e'. run e outcomes = Inr e' \<and> engine_inv e'"
proof (induction outcomes arbitrary: e)
  case Nil
  then show ?case by simp
next
  case (Cons outcome rest)
  obtain c t where o: "outcome = (c, t)"
    by (cases outcome)
  from update_performance_returns [OF Cons.prems]
  obtain info e1 where u: "update_performance e c t = Inr (info, e1)"
    by blast
  have "engine_inv e1"
    by (rule update_performance_preserves_inv [OF Cons.prems u])
  from Cons.IH [OF this] show ?case
    by (simp add: o u)
qed

text \<open>Every engine a session from the initial engine reaches satisfies the invariant.\<close>

lemma reachable_inv: "run AdaptiveEngine_init outcomes = Inr e \<Longrightarrow> engine_inv e"
  using run_inv [OF init_inv, of outcomes] by auto

subsection \<open>Turns and sessions, evaluated\<close>

lemmas update_eval_defs =
  update_performance_def current_difficulty_def list_getitem_def eval_defs

lemma update_eval_first:
  "update_performance AdaptiveEngine_init True 2 =
     Inr (\<lparr>old_score = 0, new_score = 9 / 5, score_change = 9 / 5,
           old_difficulty = ''Easy'', new_difficulty = ''Easy'',
           transition_occurred = False,
           rationale = ''High Fluency - Correct answer with quick response''\<rparr>,
          AdaptiveEngine_init\<lparr>p_score := 9 / 5\<rparr>)"
  by (simp add: update_eval_defs)

lemma update_eval_fourth:
  "update_performance (AdaptiveEngine_init\<lparr>p_score := 2439 / 500\<rparr>) True 2 =
     Inr (\<lparr>old_score = 2439 / 500, new_score = 0, score_change = - (21951 / 5000),
           old_difficulty = ''Easy'', new_difficulty = ''Medium'',
           transition_occurred = True,
           rationale = ''High Fluency - Correct answer with quick response''\<rparr>,
          AdaptiveEngine_init\<lparr>p_score := 0, current_difficulty_index := 1\<rparr>)"
  by (simp add: update_eval_defs)

text \<open>The decay and the check after each of the three deltas, on a fresh engine.\<close>

lemma check_eval_fast:
  "check_difficulty_transition
     (apply_decay (AdaptiveEngine_init\<lparr>p_score := p_score AdaptiveEngine_init + 2\<rparr>)) =
   (False, AdaptiveEngine_init\<lparr>p_score := 9 / 5\<rparr>)"
  by (simp add: eval_defs)

lemma check_eval_slow:
  "check_difficulty_transition
     (apply_decay (AdaptiveEngine_init\<lparr>p_score := p_score AdaptiveEngine_init + 1\<rparr>)) =
   (False, AdaptiveEngine_init\<lparr>p_score := 9 / 10\<rparr>)"
  by (simp add: eval_defs)

lemma check_eval_wrong:
  "check_difficulty_transition
     (apply_decay (AdaptiveEngine_init\<lparr>p_score := p_score AdaptiveEngine_init - 3\<rparr>)) =
   (False, AdaptiveEngine_init\<lparr>p_score := - (27 / 10)\<rparr>)"
  by (simp add: eval_defs)

text \<open>
  Four fast correct answers from the start: the scores are 1.8, 3.42, 4.878 and then
  6.1902, which moves the engine to Medium with score 0. Two wrong answers at Medium:
  \<open>- 2.7\<close>, then \<open>- 5.13\<close>, which moves it to Easy with score 0.
\<close>

lemma run_three_fast_correct:
  "run AdaptiveEngine_init [(True, 2), (True, 2), (True, 2)] =
     Inr (AdaptiveEngine_init\<lparr>p_score := 2439 / 500\<rparr>)"
  by (simp add: update_eval_defs)

lemma run_four_fast_correct:
  "run AdaptiveEngine_init [(True, 2), (True, 2), (True, 2), (True, 2)] =
     Inr (AdaptiveEngine_init\<lparr>p_score := 0, current_difficulty_index := 1\<rparr>)"
  by (simp add: update_eval_defs)

lemma run_two_wrong_at_medium:
  "run (AdaptiveEngine_init\<lparr>current_difficulty_index := 1\<rparr>) [(False, 1), (False, 1)] =
     Inr (AdaptiveEngine_init\<lparr>current_difficulty_index := 0\<rparr>)"
  by (simp add: update_eval_defs)

subsection \<open>Bounds on the score\<close>

lemma spec_delta_bounds: "- 3 \<le> spec_delta c t" "spec_delta c t \<le> 2"
  by (simp_all add: spec_delta_def)

lemma check_score_upper:
  "p_score e \<le> 18 \<Longrightarrow> p_score (snd (check_difficulty_transition e)) \<le> 18"
  by (simp add: check_difficulty_transition_def)

lemma check_score_lower:
  "- 27 \<le> p_score e \<Longrightarrow> - 27 \<le> p_score (snd (check_difficulty_transition e))"
  by (simp add: check_difficulty_transition_def)

lemma before_check_upper:
  assumes "engine_inv e" and "p_score e \<le> 18"
  shows "p_score (before_check e c t) \<le> 18"
  using assms(2) spec_delta_bounds(2) [of c t]
  by (simp add: before_check_score [OF assms(1)])

lemma before_check_lower:
  assumes "engine_inv e" and "- 27 \<le> p_score e"
  shows "- 27 \<le> p_score (before_check e c t)"
  using assms(2) spec_delta_bounds(1) [of c t]
  by (simp add: before_check_score [OF assms(1)])

lemma update_performance_upper:
  assumes "engine_inv e" and "p_score e \<le> 18"
    and "update_performance e c t = Inr (info, e')"
  shows "p_score e' \<le> 18"
proof -
  have "e' = snd (check_difficulty_transition (before_check e c t))"
    using assms(3) by (simp add: update_performance_inv [OF assms(1)])
  then show ?thesis
    by (simp add: check_score_upper before_check_upper assms(1,2))
qed

lemma run_upper:
  "engine_inv e \<Longrightarrow> p_score e \<le> 18 \<Longrightarrow> run e outcomes = Inr e' \<Longrightarrow> p_score e' \<le> 18"
proof (induction outcomes arbitrary: e)
  case Nil
  then show ?case by simp
next
  case (Cons outcome rest)
  obtain c t where o: "outcome = (c, t)"
    by (cases outcome)
  from update_performance_returns [OF Cons.prems(1)]
  obtain info e1 where u: "update_performance e c t = Inr (info, e1)"
    by blast
  have i1: "engine_inv e1"
    by (rule update_performance_preserves_inv [OF Cons.prems(1) u])
  have s1: "p_score e1 \<le> 18"
    by (rule update_performance_upper [OF Cons.prems(1,2) u])
  have "run e1 rest = Inr e'"
    using Cons.prems(3) by (simp add: o u)
  from Cons.IH [OF i1 s1 this] show ?case .
qed

subsection \<open>Rounding to two decimals\<close>

lemma round_half_even_close: "\<bar>of_int (round_half_even y) - y\<bar> \<le> 1 / 2"
proof -
  have "of_int \<lfloor>y\<rfloor> \<le> y" "y < of_int \<lfloor>y\<rfloor> + 1"
    by linarith+
  then show ?thesis
    unfolding round_half_even_def by (auto simp: abs_le_iff)
qed

lemma py_round_2_close: "\<bar>py_round x 2 - x\<bar> \<le> 1 / 200"
proof -
  define d where "d = of_int (round_half_even (x * 100)) - x * 100"
  have "py_round x 2 - x = d / 100"
    by (simp add: py_round_def d_def field_simps)
  moreover have "\<bar>d\<bar> \<le> 1 / 2"
    unfolding d_def by (rule round_half_even_close)
  ultimately show ?thesis
    by (simp only: abs_divide)
qed

lemma py_round_2_hundredths: "\<exists>k::int. py_round x 2 = of_int k / 100"
  by (auto simp: py_round_def)

text \<open>A tie goes to the even hundredth, as \<^verbatim>\<open>round(0.125, 2) == 0.12\<close> in Python.\<close>

lemma py_round_eighth: "py_round (1 / 8) 2 = 3 / 25"
  by (simp add: py_round_def round_half_even_def)

subsection \<open>The generators never raise\<close>

lemma random_randint_returns:
  assumes "a \<le> b"
  shows "\<exists>v r'. random_randint a b r = Inr (v, r') \<and> a \<le> v \<and> v \<le> b"
proof -
  have "0 < nat (b - a + 1)"
    using assms by simp
  then have "r 0 mod nat (b - a + 1) < nat (b - a + 1)"
    by (rule mod_less_divisor)
  then have "int (r 0 mod nat (b - a + 1)) < b - a + 1"
    by linarith
  then show ?thesis
    using assms by (simp add: random_randint_def)
qed

lemma return_value_returns: "\<exists>y r'. return_value x r = Inr (y, r')"
  by (simp add: return_value_def)

lemma randint_then_returns:
  assumes "a \<le> b"
    and "\<And>x r'. a \<le> x \<Longrightarrow> x \<le> b \<Longrightarrow> \<exists>y r''. f x r' = Inr (y, r'')"
  shows "\<exists>y r''. and_then (random_randint a b) f r = Inr (y, r'')"
proof -
  from random_randint_returns [OF assms(1), of r]
  obtain x r' where "random_randint a b r = Inr (x, r')" "a \<le> x" "x \<le> b"
    by blast
  with assms(2) [of x r'] show ?thesis
    by (simp add: and_then_def)
qed

lemma choice_then_returns:
  assumes "xs \<noteq> []"
    and "\<And>x r'. \<exists>y r''. f x r' = Inr (y, r'')"
  shows "\<exists>y r''. and_then (random_choice xs) f r = Inr (y, r'')"
  using assms(1) assms(2) [of "xs ! (r 0 mod length xs)" "\<lambda>i. r (Suc i)"]
  by (simp add: and_then_def random_choice_def)

lemma generate_easy_puzzle_returns: "\<exists>p r'. generate_easy_puzzle r = Inr (p, r')"
  unfolding generate_easy_puzzle_def
  by (auto intro!: choice_then_returns randint_then_returns return_value_returns)

lemma generate_medium_puzzle_returns: "\<exists>p r'. generate_medium_puzzle r = Inr (p, r')"
  unfolding generate_medium_puzzle_def
  by (auto intro!: choice_then_returns randint_then_returns return_value_returns)

lemma generate_hard_puzzle_returns: "\<exists>p r'. generate_hard_puzzle r = Inr (p, r')"
  unfolding generate_hard_puzzle_def
  by (auto intro!: choice_then_returns randint_then_returns return_value_returns)

lemma operations_init:
  "operations PuzzleGenerator_init d =
     (if d = ''Hard'' then Some generate_hard_puzzle
      else if d = ''Medium'' then Some generate_medium_puzzle
      else if d = ''Easy'' then Some generate_easy_puzzle
      else None)"
  by (simp add: PuzzleGenerator_init_def)

lemma generate_puzzle_raises_iff:
  "(\<exists>err. generate_puzzle PuzzleGenerator_init d r = Inl err) =
     (d \<notin> {''Easy'', ''Medium'', ''Hard''})"
proof (cases "d \<in> {''Easy'', ''Medium'', ''Hard''}")
  case True
  then have "\<exists>p r'. generate_puzzle PuzzleGenerator_init d r = Inr (p, r')"
    using generate_easy_puzzle_returns [of r] generate_medium_puzzle_returns [of r]
      generate_hard_puzzle_returns [of r]
    by (auto simp: generate_puzzle_def operations_init)
  with True show ?thesis
    by auto
next
  case False
  then show ?thesis
    by (simp add: generate_puzzle_def operations_init)
qed

lemma generate_puzzle_unknown:
  "d \<notin> {''Easy'', ''Medium'', ''Hard''} \<Longrightarrow>
   generate_puzzle PuzzleGenerator_init d r = Inl (ValueError (''Unknown difficulty: '' @ d))"
  by (simp add: generate_puzzle_def operations_init)

text \<open>With the draws 0, 1, 2, \<dots> the easy puzzle is an addition.\<close>

lemma generate_puzzle_example:
  "generate_puzzle PuzzleGenerator_init ''Easy'' (\<lambda>i. i) =
     Inr (\<lparr>question = ''2 + 3'', answer = 5, difficulty = ''Easy''\<rparr>,
          \<lambda>i. Suc (Suc (Suc i)))"
  by (simp add: generate_puzzle_def operations_init generate_easy_puzzle_def and_then_def
      random_choice_def random_randint_def return_value_def str_int_def digit_char_def)

section \<open>The transition check\<close>

text \<open>
  Claim C1. On every engine that satisfies the invariant, \<open>update_performance\<close> returns,
  and with \<open>s\<close> the score after the decay (\<open>p_score (before_check \<dots>)\<close>): if \<open>5 \<le> s\<close>
  and the level is not the highest (index 2), the index goes up by one, the stored and the
  returned score are exactly 0 and the transition flag is set; otherwise if \<open>s \<le> - 3\<close>
  and the level is not the lowest (index 0), the index goes down by one, the score is
  exactly 0 and the flag is set; otherwise index and score are as computed and the flag
  is not set. The increase is tested first.
\<close>

theorem transition_check_behaviour:
  assumes "engine_inv e"
  shows "\<exists>info e'. update_performance e is_correct response_time = Inr (info, e') \<and>
    (if 5 \<le> p_score (before_check e is_correct response_time) \<and>
        current_difficulty_index e \<noteq> 2
     then current_difficulty_index e' = current_difficulty_index e + 1 \<and>
          p_score e' = 0 \<and> new_score info = 0 \<and> transition_occurred info
     else if p_score (before_check e is_correct response_time) \<le> - 3 \<and>
        current_difficulty_index e \<noteq> 0
     then current_difficulty_index e' = current_difficulty_index e - 1 \<and>
          p_score e' = 0 \<and> new_score info = 0 \<and> transition_occurred info
     else current_difficulty_index e' = current_difficulty_index e \<and>
          p_score e' = p_score (before_check e is_correct response_time) \<and>
          new_score info = p_score (before_check e is_correct response_time) \<and>
          \<not> transition_occurred info)"
  by (simp add: update_performance_inv [OF assms]
      check_inv_cases [OF before_check_inv [OF assms]] before_check_index)

text \<open>
  At Easy with score 4.878, a correct answer in 2 seconds gives 6.1902 after the decay:
  the engine moves to index 1 and the score is 0.
\<close>

theorem transition_check_behaviour_witness:
  "engine_inv (AdaptiveEngine_init\<lparr>p_score := 2439 / 500\<rparr>) \<and>
   (\<exists>info e'.
      update_performance (AdaptiveEngine_init\<lparr>p_score := 2439 / 500\<rparr>) True 2 =
        Inr (info, e') \<and>
      current_difficulty_index e' = 1 \<and> p_score e' = 0 \<and> new_score info = 0 \<and>
      transition_occurred info)"
proof -
  have inv: "engine_inv (AdaptiveEngine_init\<lparr>p_score := 2439 / 500\<rparr>)"
    by (simp add: engine_inv_def AdaptiveEngine_init_def)
  have "5 \<le> p_score (before_check (AdaptiveEngine_init\<lparr>p_score := 2439 / 500\<rparr>) True 2)"
    by (simp add: before_check_score [OF inv] spec_delta_def)
  moreover have "current_difficulty_index (AdaptiveEngine_init\<lparr>p_score := 2439 / 500\<rparr>) = 0"
    by (simp add: AdaptiveEngine_init_def)
  ultimately show ?thesis
    using inv transition_check_behaviour [OF inv, of True 2] by simp
qed

section \<open>The decay\<close>

text \<open>
  Claim C2. On every engine that satisfies the invariant, \<open>update_performance\<close> returns;
  the score handed to the transition check is \<open>(previous score + delta) * 0.9\<close>, the
  decay applied once after the delta; the flag and the engine of the result are those of
  the check on that engine, on every turn; and when no transition fires the stored and
  the returned new score are \<open>(previous score + delta) * 0.9\<close>.
\<close>

theorem decay_once_per_call:
  assumes "engine_inv e"
  shows "\<exists>info e'. update_performance e is_correct response_time = Inr (info, e') \<and>
    p_score (before_check e is_correct response_time) =
      (p_score e + spec_delta is_correct response_time) * (9 / 10) \<and>
    check_difficulty_transition (before_check e is_correct response_time) =
      (transition_occurred info, e') \<and>
    (\<not> transition_occurred info \<longrightarrow>
       p_score e' = (p_score e + spec_delta is_correct response_time) * (9 / 10) \<and>
       new_score info = (p_score e + spec_delta is_correct response_time) * (9 / 10))"
  by (simp add: update_performance_inv [OF assms] before_check_score [OF assms]
      check_inv_cases [OF before_check_inv [OF assms]] before_check_index)

text \<open>The first turn of a session, correct in 2 seconds: no transition, score 1.8.\<close>

theorem decay_once_per_call_witness:
  "engine_inv AdaptiveEngine_init \<and>
   (\<exists>info e'. update_performance AdaptiveEngine_init True 2 = Inr (info, e') \<and>
      \<not> transition_occurred info \<and> p_score e' = 9 / 5 \<and> new_score info = 9 / 5)"
proof -
  have "p_score AdaptiveEngine_init = 0"
    by (simp add: AdaptiveEngine_init_def)
  moreover from decay_once_per_call [OF init_inv, of True 2]
  obtain info e' where
    "update_performance AdaptiveEngine_init True 2 = Inr (info, e')"
    "check_difficulty_transition (before_check AdaptiveEngine_init True 2) =
      (transition_occurred info, e')"
    "\<not> transition_occurred info \<longrightarrow>
       p_score e' = (p_score AdaptiveEngine_init + spec_delta True 2) * (9 / 10) \<and>
       new_score info = (p_score AdaptiveEngine_init + spec_delta True 2) * (9 / 10)"
    by blast
  moreover have
    "fst (check_difficulty_transition (before_check AdaptiveEngine_init True 2)) = False"
    by (simp add: eval_defs)
  ultimately show ?thesis
    using init_inv by (auto simp: spec_delta_def)
qed

section \<open>Reward, penalty and rationale\<close>

text \<open>
  Claim C3. On every engine that satisfies the invariant, \<open>update_performance\<close> returns,
  and for every correctness flag and response time: a correct answer within 5 seconds
  adds 2 to the score before the decay, so that the transition flag and the engine of the
  result are those of the decay and the check on the engine with the previous score plus
  2, and the rationale is the high fluency one; a correct answer that took more than 5
  seconds adds 1 in the same way and the rationale is the accuracy one; an incorrect
  answer subtracts 3, whatever the time, and the rationale is the inaccurate one. The old
  score returned is the previous score and the new score returned is the stored one.
\<close>

theorem delta_and_rationale:
  assumes "engine_inv e"
  shows "\<exists>info e'. update_performance e is_correct response_time = Inr (info, e') \<and>
    old_score info = p_score e \<and> new_score info = p_score e' \<and>
    (if is_correct \<and> response_time \<le> 5
     then p_score (fst (score_update e is_correct response_time)) = p_score e + 2 \<and>
          check_difficulty_transition (apply_decay (e\<lparr>p_score := p_score e + 2\<rparr>)) =
            (transition_occurred info, e') \<and>
          rationale info = ''High Fluency - Correct answer with quick response''
     else if is_correct \<and> 5 < response_time
     then p_score (fst (score_update e is_correct response_time)) = p_score e + 1 \<and>
          check_difficulty_transition (apply_decay (e\<lparr>p_score := p_score e + 1\<rparr>)) =
            (transition_occurred info, e') \<and>
          rationale info = ''Accuracy - Correct but slow response''
     else p_score (fst (score_update e is_correct response_time)) = p_score e - 3 \<and>
          check_difficulty_transition (apply_decay (e\<lparr>p_score := p_score e - 3\<rparr>)) =
            (transition_occurred info, e') \<and>
          rationale info = ''Inaccurate - Incorrect answer indicates knowledge gap'')"
  by (simp add: update_performance_inv [OF assms] before_check_def score_update_def)

text \<open>
  On a fresh engine: a correct answer in 2 seconds stores 1.8, a correct answer in 7
  seconds stores 0.9, a wrong answer stores \<open>- 2.7\<close>.
\<close>

theorem delta_and_rationale_witness:
  "engine_inv AdaptiveEngine_init \<and>
   (\<exists>info. update_performance AdaptiveEngine_init True 2 =
        Inr (info, AdaptiveEngine_init\<lparr>p_score := 9 / 5\<rparr>) \<and>
      new_score info = 9 / 5 \<and> \<not> transition_occurred info \<and>
      rationale info = ''High Fluency - Correct answer with quick response'') \<and>
   (\<exists>info. update_performance AdaptiveEngine_init True 7 =
        Inr (info, AdaptiveEngine_init\<lparr>p_score := 9 / 10\<rparr>) \<and>
      new_score info = 9 / 10 \<and> \<not> transition_occurred info \<and>
      rationale info = ''Accuracy - Correct but slow response'') \<and>
   (\<exists>info. update_performance AdaptiveEngine_init False 7 =
        Inr (info, AdaptiveEngine_init\<lparr>p_score := - (27 / 10)\<rparr>) \<and>
      new_score info = - (27 / 10) \<and> \<not> transition_occurred info \<and>
      rationale info = ''Inaccurate - Incorrect answer indicates knowledge gap'')"
proof -
  have t: "(2::real) \<le> 5" "\<not> (7::real) \<le> 5" "(5::real) < 7"
    by simp_all
  have "\<exists>info. update_performance AdaptiveEngine_init True 2 =
        Inr (info, AdaptiveEngine_init\<lparr>p_score := 9 / 5\<rparr>) \<and>
      new_score info = 9 / 5 \<and> \<not> transition_occurred info \<and>
      rationale info = ''High Fluency - Correct answer with quick response''"
    using delta_and_rationale [OF init_inv, of True 2] t
    unfolding check_eval_fast by auto
  moreover have "\<exists>info. update_performance AdaptiveEngine_init True 7 =
        Inr (info, AdaptiveEngine_init\<lparr>p_score := 9 / 10\<rparr>) \<and>
      new_score info = 9 / 10 \<and> \<not> transition_occurred info \<and>
      rationale info = ''Accuracy - Correct but slow response''"
    using delta_and_rationale [OF init_inv, of True 7] t
    unfolding check_eval_slow by auto
  moreover have "\<exists>info. update_performance AdaptiveEngine_init False 7 =
        Inr (info, AdaptiveEngine_init\<lparr>p_score := - (27 / 10)\<rparr>) \<and>
      new_score info = - (27 / 10) \<and> \<not> transition_occurred info \<and>
      rationale info = ''Inaccurate - Incorrect answer indicates knowledge gap''"
    using delta_and_rationale [OF init_inv, of False 7]
    unfolding check_eval_wrong by auto
  ultimately show ?thesis
    using init_inv by blast
qed

section \<open>The reported score change\<close>

text \<open>
  Claim C4, as stated, fails: the reported change would be the delta scaled by the decay
  on every call. On the fourth fast correct answer of a session (score 4.878 at Easy)
  the transition resets the score, the reported change is \<open>0 - 4.878 * 0.9 = - 4.3902\<close>,
  and the scaled delta is 1.8.
\<close>

theorem score_change_counterexample:
  "update_performance (AdaptiveEngine_init\<lparr>p_score := 2439 / 500\<rparr>) True 2 =
     Inr (\<lparr>old_score = 2439 / 500, new_score = 0, score_change = - (21951 / 5000),
           old_difficulty = ''Easy'', new_difficulty = ''Medium'',
           transition_occurred = True,
           rationale = ''High Fluency - Correct answer with quick response''\<rparr>,
          AdaptiveEngine_init\<lparr>p_score := 0, current_difficulty_index := 1\<rparr>) \<and>
   - (21951 / 5000) \<noteq> spec_delta True 2 * (9 / 10)"
  by (simp add: update_eval_fourth spec_delta_def)

text \<open>
  Claim C4, amended. On every engine that satisfies the invariant, \<open>update_performance\<close>
  returns and the reported score change is the new score minus 0.9 times the previous
  score. When no transition fires the new score is \<open>(previous score + delta) * 0.9\<close>, so
  the reported change is \<open>(previous score + delta) * 0.9 - previous score * 0.9\<close>; when
  a transition fires the new score is 0 and the reported change is
  \<open>0 - previous score * 0.9\<close>. The flag is that of the check on the decayed engine.
\<close>

theorem score_change_formula:
  assumes "engine_inv e"
  shows "\<exists>info e'. update_performance e is_correct response_time = Inr (info, e') \<and>
    old_score info = p_score e \<and>
    score_change info = new_score info - old_score info * (9 / 10) \<and>
    check_difficulty_transition (before_check e is_correct response_time) =
      (transition_occurred info, e') \<and>
    (\<not> transition_occurred info \<longrightarrow>
       new_score info = (p_score e + spec_delta is_correct response_time) * (9 / 10) \<and>
       score_change info =
         (p_score e + spec_delta is_correct response_time) * (9 / 10) - p_score e * (9 / 10)) \<and>
    (transition_occurred info \<longrightarrow>
       new_score info = 0 \<and> score_change info = 0 - p_score e * (9 / 10))"
  by (simp add: update_performance_inv [OF assms] before_check_score [OF assms]
      check_inv_cases [OF before_check_inv [OF assms]] before_check_index)

text \<open>The second turn of a session (no transition) and the fourth (a transition).\<close>

theorem score_change_formula_witness:
  "engine_inv (AdaptiveEngine_init\<lparr>p_score := 9 / 5\<rparr>) \<and>
   (\<exists>info e'. update_performance (AdaptiveEngine_init\<lparr>p_score := 9 / 5\<rparr>) True 2 =
        Inr (info, e') \<and>
      \<not> transition_occurred info \<and> new_score info = (9 / 5 + 2) * (9 / 10) \<and>
      score_change info = (9 / 5 + 2) * (9 / 10) - 9 / 5 * (9 / 10)) \<and>
   engine_inv (AdaptiveEngine_init\<lparr>p_score := 2439 / 500\<rparr>) \<and>
   (\<exists>info e'.
      update_performance (AdaptiveEngine_init\<lparr>p_score := 2439 / 500\<rparr>) True 2 =
        Inr (info, e') \<and>
      transition_occurred info \<and> new_score info = 0 \<and>
      score_change info = 0 - 2439 / 500 * (9 / 10))"
proof -
  let ?e2 = "AdaptiveEngine_init\<lparr>p_score := 9 / 5\<rparr>"
  let ?e4 = "AdaptiveEngine_init\<lparr>p_score := 2439 / 500\<rparr>"
  have inv2: "engine_inv ?e2" and inv4: "engine_inv ?e4"
    by (simp_all add: engine_inv_def AdaptiveEngine_init_def)
  have s: "p_score ?e2 = 9 / 5" "p_score ?e4 = 2439 / 500" "spec_delta True 2 = 2"
    by (simp_all add: spec_delta_def)
  have f2: "fst (check_difficulty_transition (before_check ?e2 True 2)) = False"
    and f4: "fst (check_difficulty_transition (before_check ?e4 True 2)) = True"
    by (simp_all add: eval_defs)
  from score_change_formula [OF inv2, of True 2] obtain info2 e2' where
    u2: "update_performance ?e2 True 2 = Inr (info2, e2')"
    and c2: "check_difficulty_transition (before_check ?e2 True 2) =
      (transition_occurred info2, e2')"
    and n2: "\<not> transition_occurred info2 \<longrightarrow>
       new_score info2 = (p_score ?e2 + spec_delta True 2) * (9 / 10) \<and>
       score_change info2 =
         (p_score ?e2 + spec_delta True 2) * (9 / 10) - p_score ?e2 * (9 / 10)"
    by blast
  from score_change_formula [OF inv4, of True 2] obtain info4 e4' where
    u4: "update_performance ?e4 True 2 = Inr (info4, e4')"
    and c4: "check_difficulty_transition (before_check ?e4 True 2) =
      (transition_occurred info4, e4')"
    and n4: "transition_occurred info4 \<longrightarrow>
       new_score info4 = 0 \<and> score_change info4 = 0 - p_score ?e4 * (9 / 10)"
    by blast
  have "\<not> transition_occurred info2"
    using f2 c2 by simp
  moreover have "transition_occurred info4"
    using f4 c4 by simp
  ultimately show ?thesis
    using inv2 inv4 u2 u4 n2 n4 unfolding s by blast
qed

section \<open>Negative response times\<close>

text \<open>
  Claim C5, as stated, fails: a correct answer with a negative response time would be
  classified as slow (the accuracy rationale, delta 1). The test of the source is
  \<open>response_time \<le> 5\<close>, which a negative time passes: on a fresh engine a correct answer
  with time \<open>- 1\<close> has the high fluency rationale and adds 2.
\<close>

theorem negative_time_counterexample:
  "update_performance AdaptiveEngine_init True (- 1) =
     Inr (\<lparr>old_score = 0, new_score = 9 / 5, score_change = 9 / 5,
           old_difficulty = ''Easy'', new_difficulty = ''Easy'',
           transition_occurred = False,
           rationale = ''High Fluency - Correct answer with quick response''\<rparr>,
          AdaptiveEngine_init\<lparr>p_score := 9 / 5\<rparr>) \<and>
   ''High Fluency - Correct answer with quick response'' \<noteq>
     ''Accuracy - Correct but slow response'' \<and>
   p_score (fst (score_update AdaptiveEngine_init True (- 1))) =
     p_score AdaptiveEngine_init + 2"
  by (simp add: update_eval_defs)

text \<open>
  Claim C5, amended. On every engine that satisfies the invariant, a correct answer with
  a negative response time raises no error and is treated as fast: 2 is added to the
  score before the decay, so that the transition flag and the engine of the result are
  those of the decay and the check on the engine with the previous score plus 2, the new
  score returned is the stored one, and the rationale is the high fluency one.
\<close>

theorem negative_time_is_fast:
  assumes "engine_inv e" and "response_time < 0"
  shows "\<exists>info e'. update_performance e True response_time = Inr (info, e') \<and>
    p_score (fst (score_update e True response_time)) = p_score e + 2 \<and>
    check_difficulty_transition (apply_decay (e\<lparr>p_score := p_score e + 2\<rparr>)) =
      (transition_occurred info, e') \<and>
    old_score info = p_score e \<and> new_score info = p_score e' \<and>
    rationale info = ''High Fluency - Correct answer with quick response''"
  using assms(2)
  by (simp add: update_performance_inv [OF assms(1)] before_check_def score_update_def)

text \<open>A correct answer with time \<open>- 1\<close> on a fresh engine stores and returns 1.8.\<close>

theorem negative_time_is_fast_witness:
  "engine_inv AdaptiveEngine_init \<and> (- 1 :: real) < 0 \<and>
   (\<exists>info. update_performance AdaptiveEngine_init True (- 1) =
        Inr (info, AdaptiveEngine_init\<lparr>p_score := 9 / 5\<rparr>) \<and>
      old_score info = 0 \<and> new_score info = 9 / 5 \<and> \<not> transition_occurred info \<and>
      rationale info = ''High Fluency - Correct answer with quick response'')"
proof -
  have neg: "(- 1 :: real) < 0"
    by simp
  have "p_score AdaptiveEngine_init = 0"
    by (simp add: AdaptiveEngine_init_def)
  then show ?thesis
    using init_inv neg negative_time_is_fast [OF init_inv neg]
    unfolding check_eval_fast by auto
qed

section \<open>The difficulty index stays in range\<close>

text \<open>
  Claim C6. Every session from the initial engine runs to its end, and the difficulty
  index of the engine it leaves is between 0 and 2: it never goes past Hard and never
  below Easy. (Every prefix of a session is a session, so this holds after every turn.)
\<close>

theorem index_stays_in_range:
  "\<exists>e. run AdaptiveEngine_init outcomes = Inr e \<and>
       0 \<le> current_difficulty_index e \<and> current_difficulty_index e \<le> 2"
  using run_inv [OF init_inv, of outcomes] by (auto simp: engine_inv_def)

text \<open>Four fast correct answers from the start leave the engine at index 1.\<close>

theorem index_stays_in_range_witness:
  "\<exists>e. run AdaptiveEngine_init [(True, 2), (True, 2), (True, 2), (True, 2)] = Inr e \<and>
       current_difficulty_index e = 1 \<and>
       0 \<le> current_difficulty_index e \<and> current_difficulty_index e \<le> 2"
  using index_stays_in_range [of "[(True, 2), (True, 2), (True, 2), (True, 2)]"]
  unfolding run_four_fast_correct by auto

section \<open>No reset at the highest and the lowest level\<close>

text \<open>
  Claim C7, as stated, fails in its consequence: at the highest level the score would
  grow above 5 without bound. The decay bounds it: no session from the initial engine
  reaches a score above 18, at Hard or anywhere (18 is where the reward of 2 and the
  loss of a tenth cancel).
\<close>

theorem score_growth_counterexample:
  "\<not> (\<forall>B. \<exists>outcomes e. run AdaptiveEngine_init outcomes = Inr e \<and>
         current_difficulty_index e = 2 \<and> B < p_score e)"
proof
  assume "\<forall>B. \<exists>outcomes e. run AdaptiveEngine_init outcomes = Inr e \<and>
         current_difficulty_index e = 2 \<and> B < p_score e"
  then obtain outcomes e where r: "run AdaptiveEngine_init outcomes = Inr e"
    and big: "18 < p_score e"
    by blast
  have "p_score AdaptiveEngine_init \<le> 18"
    by (simp add: AdaptiveEngine_init_def)
  from run_upper [OF init_inv this r] big show False
    by simp
qed

text \<open>
  Claim C7, amended. On every engine that satisfies the invariant: at the highest level
  with a score of at least 5 after the decay, \<open>update_performance\<close> changes neither the
  index nor the label, keeps the decayed score (no reset) and signals no transition, so
  the score can be above 5; symmetrically at the lowest level with a score of at most
  \<open>- 3\<close> after the decay. The score is not unbounded: a score of at most 18 stays at most
  18, and a score of at least \<open>- 27\<close> stays at least \<open>- 27\<close>.
\<close>

theorem no_reset_at_the_ends:
  assumes "engine_inv e"
  shows "\<exists>info e'. update_performance e is_correct response_time = Inr (info, e') \<and>
    (current_difficulty_index e = 2 \<and>
     5 \<le> p_score (before_check e is_correct response_time) \<longrightarrow>
       current_difficulty_index e' = 2 \<and> new_difficulty info = old_difficulty info \<and>
       p_score e' = p_score (before_check e is_correct response_time) \<and>
       \<not> transition_occurred info) \<and>
    (current_difficulty_index e = 0 \<and>
     p_score (before_check e is_correct response_time) \<le> - 3 \<longrightarrow>
       current_difficulty_index e' = 0 \<and> new_difficulty info = old_difficulty info \<and>
       p_score e' = p_score (before_check e is_correct response_time) \<and>
       \<not> transition_occurred info) \<and>
    (p_score e \<le> 18 \<longrightarrow> p_score e' \<le> 18) \<and>
    (- 27 \<le> p_score e \<longrightarrow> - 27 \<le> p_score e')"
proof -
  let ?b = "before_check e is_correct response_time"
  have b: "engine_inv ?b"
    by (rule before_check_inv [OF assms])
  have up: "p_score e \<le> 18 \<longrightarrow> p_score (snd (check_difficulty_transition ?b)) \<le> 18"
    by (simp add: check_score_upper before_check_upper assms)
  have lo: "- 27 \<le> p_score e \<longrightarrow> - 27 \<le> p_score (snd (check_difficulty_transition ?b))"
    by (simp add: check_score_lower before_check_lower assms)
  have ends: "current_difficulty_index e = 2 \<and> 5 \<le> p_score ?b \<or>
      current_difficulty_index e = 0 \<and> p_score ?b \<le> - 3 \<Longrightarrow>
      check_difficulty_transition ?b = (False, ?b)"
    by (auto simp: check_inv_cases [OF b] before_check_index)
  show ?thesis
    using up lo ends
    by (auto simp: update_performance_inv [OF assms] before_check_index)
qed

text \<open>
  At Hard with score 5, a fast correct answer leaves Hard with score 6.3; at Easy with
  score \<open>- 2.7\<close>, a wrong answer leaves Easy with score \<open>- 5.13\<close>.
\<close>

theorem no_reset_at_the_ends_witness:
  "engine_inv (AdaptiveEngine_init\<lparr>p_score := 5, current_difficulty_index := 2\<rparr>) \<and>
   (\<exists>info e'.
      update_performance (AdaptiveEngine_init\<lparr>p_score := 5, current_difficulty_index := 2\<rparr>)
        True 1 = Inr (info, e') \<and>
      current_difficulty_index e' = 2 \<and> p_score e' = 63 / 10 \<and> p_score e' \<le> 18 \<and>
      \<not> transition_occurred info) \<and>
   engine_inv (AdaptiveEngine_init\<lparr>p_score := - (27 / 10)\<rparr>) \<and>
   (\<exists>info e'.
      update_performance (AdaptiveEngine_init\<lparr>p_score := - (27 / 10)\<rparr>) False 1 =
        Inr (info, e') \<and>
      current_difficulty_index e' = 0 \<and> p_score e' = - (513 / 100) \<and> - 27 \<le> p_score e' \<and>
      \<not> transition_occurred info)"
proof -
  let ?h = "AdaptiveEngine_init\<lparr>p_score := 5, current_difficulty_index := 2\<rparr>"
  let ?l = "AdaptiveEngine_init\<lparr>p_score := - (27 / 10)\<rparr>"
  have h: "engine_inv ?h" and l: "engine_inv ?l"
    by (simp_all add: engine_inv_def AdaptiveEngine_init_def)
  have bh: "p_score (before_check ?h True 1) = 63 / 10"
    and bl: "p_score (before_check ?l False 1) = - (513 / 100)"
    by (simp_all add: eval_defs)
  have ih: "current_difficulty_index ?h = 2" "p_score ?h \<le> 18"
    and il: "current_difficulty_index ?l = 0" "- 27 \<le> p_score ?l"
    by (simp_all add: AdaptiveEngine_init_def)
  have "\<exists>info e'. update_performance ?h True 1 = Inr (info, e') \<and>
      current_difficulty_index e' = 2 \<and> p_score e' = 63 / 10 \<and> p_score e' \<le> 18 \<and>
      \<not> transition_occurred info"
    using no_reset_at_the_ends [OF h, of True 1] ih by (auto simp: bh)
  moreover have "\<exists>info e'. update_performance ?l False 1 = Inr (info, e') \<and>
      current_difficulty_index e' = 0 \<and> p_score e' = - (513 / 100) \<and> - 27 \<le> p_score e' \<and>
      \<not> transition_occurred info"
    using no_reset_at_the_ends [OF l, of False 1] il by (auto simp: bl)
  ultimately show ?thesis
    using h l by blast
qed

section \<open>The status query is a pure read\<close>

text \<open>
  Claim C8. On every engine that satisfies the invariant, \<open>get_status\<close> returns and
  leaves the engine as it was (score, index and all, the score not rounded). The score it
  reports is the stored score rounded to two decimals: a whole number of hundredths at
  most half a hundredth away. It reports the label and the index of the current level,
  the increase threshold 5 and the decrease threshold \<open>- 3\<close>.
\<close>

theorem status_is_pure_read:
  assumes "engine_inv e"
  shows "\<exists>st. get_status e = Inr (st, e) \<and>
    status_p_score st = py_round (p_score e) 2 \<and>
    \<bar>status_p_score st - p_score e\<bar> \<le> 1 / 200 \<and>
    (\<exists>k::int. status_p_score st = of_int k / 100) \<and>
    current_difficulty e = Inr (status_difficulty st) \<and>
    status_difficulty_index st = current_difficulty_index e \<and>
    increase_threshold st = 5 \<and> decrease_threshold st = - 3"
  using py_round_2_close [of "p_score e"] py_round_2_hundredths [of "p_score e"]
  by (simp add: get_status_def current_difficulty_inv [OF assms])

text \<open>A stored score of 0.125 is reported as 0.12 and stays 0.125.\<close>

theorem status_is_pure_read_witness:
  "engine_inv (AdaptiveEngine_init\<lparr>p_score := 1 / 8\<rparr>) \<and>
   (\<exists>st. get_status (AdaptiveEngine_init\<lparr>p_score := 1 / 8\<rparr>) =
           Inr (st, AdaptiveEngine_init\<lparr>p_score := 1 / 8\<rparr>) \<and>
      status_p_score st = 3 / 25 \<and> status_difficulty st = ''Easy'' \<and>
      status_difficulty_index st = 0 \<and> increase_threshold st = 5 \<and>
      decrease_threshold st = - 3)"
proof -
  let ?e = "AdaptiveEngine_init\<lparr>p_score := 1 / 8\<rparr>"
  have inv: "engine_inv ?e"
    by (simp add: engine_inv_def AdaptiveEngine_init_def)
  have "p_score ?e = 1 / 8" "current_difficulty_index ?e = 0"
    "current_difficulty ?e = Inr ''Easy''"
    by (simp_all add: AdaptiveEngine_init_def current_difficulty_def list_getitem_def)
  then show ?thesis
    using inv status_is_pure_read [OF inv] by (auto simp: py_round_eighth)
qed

section \<open>Failures\<close>

text \<open>
  Claim C9. \<open>generate_puzzle\<close> on the generator of \<^verbatim>\<open>__init__\<close> raises if and only
  if the label is not one of Easy, Medium, Hard, whatever the random draws, and then the
  error is the \<^verbatim>\<open>ValueError\<close> for an unknown difficulty. \<open>update_performance\<close> never
  raises on an engine that satisfies the invariant, for every correctness flag and every
  response time, and every session from the initial engine runs to its end.
\<close>

theorem only_failure_is_unknown_difficulty:
  assumes "engine_inv e"
  shows "((\<exists>err. generate_puzzle PuzzleGenerator_init d r = Inl err) =
            (d \<notin> {''Easy'', ''Medium'', ''Hard''})) \<and>
         (d \<notin> {''Easy'', ''Medium'', ''Hard''} \<longrightarrow>
            generate_puzzle PuzzleGenerator_init d r =
              Inl (ValueError (''Unknown difficulty: '' @ d))) \<and>
         (\<exists>info e'. update_performance e is_correct response_time = Inr (info, e')) \<and>
         (\<exists>e'. run AdaptiveEngine_init outcomes = Inr e')"
  using generate_puzzle_raises_iff [of d r] generate_puzzle_unknown [of d r]
    update_performance_returns [OF assms, of is_correct response_time]
    run_inv [OF init_inv, of outcomes]
  by blast

theorem only_failure_is_unknown_difficulty_witness:
  "engine_inv AdaptiveEngine_init \<and>
   ''Expert'' \<notin> {''Easy'', ''Medium'', ''Hard''} \<and>
   generate_puzzle PuzzleGenerator_init ''Expert'' (\<lambda>i. i) =
     Inl (ValueError ''Unknown difficulty: Expert'') \<and>
   (\<exists>p r'. generate_puzzle PuzzleGenerator_init ''Easy'' (\<lambda>i. i) = Inr (p, r')) \<and>
   (\<exists>info e'. update_performance AdaptiveEngine_init False 3 = Inr (info, e'))"
proof -
  have no: "''Expert'' \<notin> {''Easy'', ''Medium'', ''Hard''}"
    and yes: "''Easy'' \<in> {''Easy'', ''Medium'', ''Hard''}"
    by simp_all
  have "\<not> (\<exists>err. generate_puzzle PuzzleGenerator_init ''Easy'' (\<lambda>i. i) = Inl err)"
    using only_failure_is_unknown_difficulty [OF init_inv, of "''Easy''" "\<lambda>i. i"] yes
    by blast
  then have "\<exists>p r'. generate_puzzle PuzzleGenerator_init ''Easy'' (\<lambda>i. i) = Inr (p, r')"
    by (cases "generate_puzzle PuzzleGenerator_init ''Easy'' (\<lambda>i. i)") auto
  then show ?thesis
    using init_inv no
      only_failure_is_unknown_difficulty [OF init_inv, of "''Expert''" "\<lambda>i. i" False 3]
    by simp
qed

section \<open>The transition flag and the level\<close>

text \<open>
  Claim C10. On every engine that satisfies the invariant, \<open>update_performance\<close> returns
  the label of the level before and after the call; the transition flag is set exactly
  when the two labels differ, which is exactly when the difficulty index changed; and
  the new score it returns is the score stored in the engine after the call.
\<close>

theorem transition_flag_iff_level_changes:
  assumes "engine_inv e"
  shows "\<exists>info e'. update_performance e is_correct response_time = Inr (info, e') \<and>
    current_difficulty e = Inr (old_difficulty info) \<and>
    current_difficulty e' = Inr (new_difficulty info) \<and>
    transition_occurred info = (new_difficulty info \<noteq> old_difficulty info) \<and>
    transition_occurred info = (current_difficulty_index e' \<noteq> current_difficulty_index e) \<and>
    new_score info = p_score e'"
proof -
  let ?b = "before_check e is_correct response_time"
  have b: "engine_inv ?b"
    by (rule before_check_inv [OF assms])
  from inv_index_cases [OF assms] show ?thesis
    by (elim disjE)
      (simp_all add: update_performance_inv [OF assms] check_inv_cases [OF b]
        before_check_index current_difficulty_def list_getitem_def
        inv_levels [OF b] inv_levels [OF assms])
qed

theorem transition_flag_iff_level_changes_witness:
  "engine_inv (AdaptiveEngine_init\<lparr>p_score := 2439 / 500\<rparr>) \<and>
   (\<exists>info e'.
      update_performance (AdaptiveEngine_init\<lparr>p_score := 2439 / 500\<rparr>) True 2 =
        Inr (info, e') \<and>
      transition_occurred info \<and> old_difficulty info = ''Easy'' \<and>
      new_difficulty info = ''Medium'' \<and> new_difficulty info \<noteq> old_difficulty info \<and>
      current_difficulty_index e' \<noteq>
        current_difficulty_index (AdaptiveEngine_init\<lparr>p_score := 2439 / 500\<rparr>) \<and>
      new_score info = p_score e')"
proof -
  have inv: "engine_inv (AdaptiveEngine_init\<lparr>p_score := 2439 / 500\<rparr>)"
    by (simp add: engine_inv_def AdaptiveEngine_init_def)
  show ?thesis
    using inv transition_flag_iff_level_changes [OF inv, of True 2]
    by (auto simp: update_eval_fourth)
qed

end
